theory Spec2Isabelle
  imports Complex_Main
begin

section \<open>Python values and exceptions\<close>

text \<open>
  The setters of \<open>asynckeybow.py\<close> accept any Python object. The values modelled are
  \<open>None\<close>, booleans, integers, floats (as reals: no NaN, no infinities, no rounding),
  strings and the builtin classes themselves; user-defined classes are outside the
  model.
\<close>

datatype pytype = T_object | T_type | T_NoneType | T_bool | T_int | T_float | T_str

datatype pyval = PNone | PBool bool | PInt int | PFloat real | PStr string | PType pytype

text \<open>The exception classes of the module and the builtin ones its code can raise.\<close>

datatype error =
    KeyInterfaceError | LEDInterfaceError | KeySequenceListenerError | KeyStateError
  | TypeError | ValueError | IndexError | KeyError

text \<open>The numeric value of a number: \<open>bool\<close> is a subclass of \<open>int\<close>.\<close>

fun num_of :: "pyval \<Rightarrow> real option" where
  "num_of (PBool b) = Some (if b then 1 else 0)"
| "num_of (PInt i) = Some (of_int i)"
| "num_of (PFloat x) = Some x"
| "num_of PNone = None"
| "num_of (PStr s) = None"
| "num_of (PType t) = None"

text \<open>\<open>a == b\<close>: numbers compare by value across bool, int and float.\<close>

definition py_eq :: "pyval \<Rightarrow> pyval \<Rightarrow> bool" where
  "py_eq a b =
     (case num_of a of
        Some x \<Rightarrow> (case num_of b of Some y \<Rightarrow> x = y | None \<Rightarrow> False)
      | None \<Rightarrow> (case num_of b of Some y \<Rightarrow> False | None \<Rightarrow> a = b))"

text \<open>\<open>a in (x, y, ...)\<close>: some element is \<open>a\<close> or equals it.\<close>

definition py_in :: "pyval \<Rightarrow> pyval list \<Rightarrow> bool" where
  "py_in a xs = list_ex (\<lambda>x. x = a \<or> py_eq a x) xs"

text \<open>\<open>isinstance(v, bool)\<close>.\<close>

fun is_bool :: "pyval \<Rightarrow> bool" where
  "is_bool (PBool b) = True"
| "is_bool PNone = False"
| "is_bool (PInt i) = False"
| "is_bool (PFloat x) = False"
| "is_bool (PStr s) = False"
| "is_bool (PType t) = False"

text \<open>
  \<open>isinstance(int, val)\<close>, the call the setters of \<open>LEDCommand\<close> make: the first argument
  is the class \<open>int\<close>, which is an instance of \<open>type\<close> and of \<open>object\<close> and of no other
  builtin class; a second argument that is no class raises \<open>TypeError\<close>.
\<close>

fun isinstance_int :: "pyval \<Rightarrow> error + bool" where
  "isinstance_int (PType t) = Inr (t = T_object \<or> t = T_type)"
| "isinstance_int PNone = Inl TypeError"
| "isinstance_int (PBool b) = Inl TypeError"
| "isinstance_int (PInt i) = Inl TypeError"
| "isinstance_int (PFloat x) = Inl TypeError"
| "isinstance_int (PStr s) = Inl TypeError"

text \<open>\<open>val < n\<close> and \<open>val > n\<close> for an integer literal \<open>n\<close>: only numbers are ordered
  against an integer.\<close>

definition py_lt :: "pyval \<Rightarrow> int \<Rightarrow> error + bool" where
  "py_lt val n = (case num_of val of Some x \<Rightarrow> Inr (x < of_int n) | None \<Rightarrow> Inl TypeError)"

definition py_gt :: "pyval \<Rightarrow> int \<Rightarrow> error + bool" where
  "py_gt val n = (case num_of val of Some x \<Rightarrow> Inr (x > of_int n) | None \<Rightarrow> Inl TypeError)"

text \<open>\<open>int(x)\<close> of a float truncates towards zero.\<close>

definition py_int :: "real \<Rightarrow> int" where
  "py_int x = (if 0 \<le> x then \<lfloor>x\<rfloor> else \<lceil>x\<rceil>)"


section \<open>KeyState\<close>

record KeyState =
  ks_pressed :: pyval
  ks_r :: int
  ks_g :: int
  ks_b :: int

definition KeyState_init :: KeyState where
  "KeyState_init = \<lparr>ks_pressed = PBool False, ks_r = 0, ks_g = 0, ks_b = 0\<rparr>"

definition pressed :: "KeyState \<Rightarrow> pyval" where
  "pressed ks = ks_pressed ks"

definition pressed_setter :: "KeyState \<Rightarrow> pyval \<Rightarrow> error + KeyState" where
  "pressed_setter ks var =
     (if \<not> py_in var [PBool True, PBool False] then Inl KeyStateError
      else Inr (ks\<lparr>ks_pressed := var\<rparr>))"

definition down :: "KeyState \<Rightarrow> KeyState" where
  "down ks = ks\<lparr>ks_pressed := PBool True\<rparr>"

definition up :: "KeyState \<Rightarrow> error + KeyState" where
  "up ks = pressed_setter ks (PBool False)"

text \<open>\<open>format(n, '02x')\<close>: lowercase hexadecimal digits of \<open>|n|\<close>, a sign for a negative
  number, and zeros after the sign up to a total width of two.\<close>

definition hexdigit :: "nat \<Rightarrow> char" where
  "hexdigit d = ''0123456789abcdef'' ! d"

fun hex_of_nat :: "nat \<Rightarrow> string" where
  "hex_of_nat n = (if n < 16 then [hexdigit n] else hex_of_nat (n div 16) @ [hexdigit (n mod 16)])"

declare hex_of_nat.simps [simp del]

definition format_02x :: "int \<Rightarrow> string" where
  "format_02x i =
     (let ds = hex_of_nat (nat \<bar>i\<bar>)
      in if i < 0 then CHR ''-'' # replicate (1 - length ds) CHR ''0'' @ ds
         else replicate (2 - length ds) CHR ''0'' @ ds)"

definition colourcode :: "KeyState \<Rightarrow> string" where
  "colourcode ks = format_02x (ks_r ks) @ format_02x (ks_g ks) @ format_02x (ks_b ks)"

definition is_lit :: "KeyState \<Rightarrow> bool" where
  "is_lit ks = (if ks_r ks = ks_g ks \<and> ks_g ks = ks_b ks \<and> ks_b ks = 0 then False else True)"

text \<open>The colour code as the specification words it: each of \<open>r\<close>, \<open>g\<close>, \<open>b\<close> as two
  lowercase hexadecimal digits, zero-padded, concatenated.\<close>

definition spec_hex2 :: "int \<Rightarrow> string" where
  "spec_hex2 v = [hexdigit (nat v div 16), hexdigit (nat v mod 16)]"

definition spec_color_code :: "int \<Rightarrow> int \<Rightarrow> int \<Rightarrow> string" where
  "spec_color_code r g b = spec_hex2 r @ spec_hex2 g @ spec_hex2 b"



section \<open>KeyInterface: the scripted event source\<close>

text \<open>
  A \<open>KeyInterface\<close> constructed with \<open>Implementation.SIMULATED\<close>: the hardware branches
  (those under \<open>self._impl == Implementation.KEYBOW\<close>) are not taken and the fields only
  they use are left out.
  \<open>_state\<close> is a dict from key index to \<open>KeyState\<close>, kept as an association list in
  insertion order. \<open>ki_slept\<close> is not a field of the class: it is the trace of the
  durations handed to \<open>asyncio.sleep\<close>, oldest first, which makes the suspensions of
  \<open>async_wait\<close> observable.
\<close>

record KeyInterface =
  ki_state :: "(int \<times> KeyState) list"
  ki_last_press :: "(real \<times> bool) option"
  ki_script :: "string list"
  ki_script_position :: nat
  ki_slept :: "real list"

definition KeyInterface_init :: KeyInterface where
  "KeyInterface_init =
     \<lparr>ki_state = [], ki_last_press = None, ki_script = [],
      ki_script_position = 0, ki_slept = []\<rparr>"

text \<open>\<open>d[k] = v\<close> on the association list: an existing key keeps its place.\<close>

fun dict_set :: "(int \<times> KeyState) list \<Rightarrow> int \<Rightarrow> KeyState \<Rightarrow> (int \<times> KeyState) list" where
  "dict_set [] k v = [(k, v)]"
| "dict_set ((k', v') # rest) k v =
     (if k' = k then (k', v) # rest else (k', v') # dict_set rest k v)"

text \<open>\<open>setup\<close>: an empty \<open>script\<close> is falsy, as the default \<open>None\<close> is, and leaves
  \<open>_script\<close> as it is.\<close>

definition KeyInterface_setup :: "KeyInterface \<Rightarrow> nat \<Rightarrow> string list \<Rightarrow> KeyInterface" where
  "KeyInterface_setup ki keycount script =
     ki\<lparr>ki_script := (if script \<noteq> [] then script else ki_script ki),
        ki_state := foldl (\<lambda>st k. dict_set st (int k) KeyState_init) (ki_state ki) [0..<keycount]\<rparr>"

text \<open>\<open>self._state[idx]\<close> for an index that may be a float: a dict finds the key that
  is equal to it, so \<open>1.0\<close> finds \<open>1\<close>; no such key raises \<open>KeyError\<close>.\<close>

fun state_lookup :: "(int \<times> KeyState) list \<Rightarrow> real \<Rightarrow> error + KeyState" where
  "state_lookup [] idx = Inl KeyError"
| "state_lookup ((k, ks) # rest) idx =
     (if of_int k = idx then Inr ks else state_lookup rest idx)"

fun state_store :: "(int \<times> KeyState) list \<Rightarrow> real \<Rightarrow> KeyState \<Rightarrow> (int \<times> KeyState) list" where
  "state_store [] idx ks' = []"
| "state_store ((k, ks) # rest) idx ks' =
     (if of_int k = idx then (k, ks') # rest else (k, ks) # state_store rest idx ks')"

definition key_update :: "KeyInterface \<Rightarrow> real \<Rightarrow> bool \<Rightarrow> error + KeyInterface" where
  "key_update ki idx state =
     (case state_lookup (ki_state ki) idx of
        Inl e \<Rightarrow> Inl e
      | Inr ks \<Rightarrow>
          (case pressed_setter ks (PBool state) of
             Inl e \<Rightarrow> Inl e
           | Inr ks' \<Rightarrow>
               Inr (ki\<lparr>ki_state := state_store (ki_state ki) idx ks',
                       ki_last_press := Some (idx, state)\<rparr>)))"

text \<open>\<open>str.split()\<close>: the maximal runs of characters that are not whitespace. A
  \<open>char\<close> is one of the first 256 code points; these are the whitespace ones.\<close>

definition is_space :: "char \<Rightarrow> bool" where
  "is_space c =
     (of_char c \<in> set [9, 10, 11, 12, 13, 28, 29, 30, 31, 32, 133, 160 :: nat])"

fun split_from :: "string \<Rightarrow> string \<Rightarrow> string list" where
  "split_from cur [] = (if cur = [] then [] else [cur])"
| "split_from cur (c # cs) =
     (if is_space c then (if cur = [] then split_from [] cs else cur # split_from [] cs)
      else split_from (cur @ [c]) cs)"

definition str_split :: "string \<Rightarrow> string list" where
  "str_split s = split_from [] s"

text \<open>
  The \<open>SIMULATED\<close> branch of \<open>async_wait\<close>. Python's builtin \<open>float\<close> is the parameter
  \<open>flt\<close>: \<open>None\<close> where \<open>float(arg)\<close> raises \<open>ValueError\<close>. The result is the raised
  exception or the returned value (\<open>None\<close> when the function falls off its end, for an
  operation that is none of the three), with the interface as the call leaves it: an
  exception does not undo the assignments made before it.
\<close>

function async_wait :: "(string \<Rightarrow> real option) \<Rightarrow> KeyInterface \<Rightarrow>
    (error + (real \<times> bool) option) \<times> KeyInterface" where
  "async_wait flt ki =
     (if ki_script_position ki \<ge> length (ki_script ki)
      then (Inl IndexError, ki\<lparr>ki_slept := ki_slept ki @ [99999999]\<rparr>)
      else
        (let cmd = ki_script ki ! ki_script_position ki;
             ki1 = ki\<lparr>ki_script_position := ki_script_position ki + 1\<rparr>
         in case str_split cmd of
              [op, arg] \<Rightarrow>
                (case flt arg of
                   None \<Rightarrow> (Inl ValueError, ki1)
                 | Some a \<Rightarrow>
                     if op = ''sleep''
                     then async_wait flt (ki1\<lparr>ki_slept := ki_slept ki1 @ [a]\<rparr>)
                     else if op = ''down''
                     then (case key_update ki1 a True of
                             Inl e \<Rightarrow> (Inl e, ki1)
                           | Inr ki2 \<Rightarrow> (Inr (Some (a, True)), ki2))
                     else if op = ''up''
                     then (case key_update ki1 a False of
                             Inl e \<Rightarrow> (Inl e, ki1)
                           | Inr ki2 \<Rightarrow> (Inr (Some (a, False)), ki2))
                     else (Inr None, ki1))
            | _ \<Rightarrow> (Inl ValueError, ki1)))"
  by pat_completeness auto
termination
  by (relation "measure (\<lambda>(flt, ki). length (ki_script ki) - ki_script_position ki)") auto

declare async_wait.simps [simp del]



section \<open>KeySequenceListener\<close>

datatype KeySequence = SINGLE | HOLD | DOUBLE

text \<open>A keypress is \<open>(key_index, pressed)\<close>; the timeline holds \<open>(timestamp, keypress)\<close>
  pairs, or \<open>None\<close> in the slots it was created with.\<close>

type_synonym keypress = "real \<times> bool"

type_synonym timeline_entry = "real \<times> keypress"

record KeySequenceListener =
  ksl_listen_for :: "KeySequence list"
  ksl_ki :: KeyInterface
  ksl_tl :: "timeline_entry option list"

text \<open>\<open>deque([None for x in range(50)], 50)\<close>.\<close>

definition tl_init :: "timeline_entry option list" where
  "tl_init = replicate 50 None"

definition KeySequenceListener_init :: "KeyInterface \<Rightarrow> KeySequence list \<Rightarrow> KeySequenceListener" where
  "KeySequenceListener_init interface listen_for =
     \<lparr>ksl_listen_for = listen_for, ksl_ki = interface, ksl_tl = tl_init\<rparr>"

text \<open>\<open>appendleft\<close> on a deque of \<open>maxlen\<close> 50: the item goes in at the left, and an item
  falls off the right end when the deque has grown beyond 50.\<close>

definition appendleft :: "'a \<Rightarrow> 'a list \<Rightarrow> 'a list" where
  "appendleft x d = (let d' = x # d in if length d' > 50 then butlast d' else d')"

text \<open>The timeline after the entries \<open>es\<close> have been recorded one after the other,
  the oldest first, each as line 261 of \<open>produce\<close> records it.\<close>

definition push_all :: "timeline_entry list \<Rightarrow> timeline_entry option list \<Rightarrow>
    timeline_entry option list" where
  "push_all es d = foldl (\<lambda>d e. appendleft (Some e) d) d es"

text \<open>\<open>[kp for kp in list(self._tl) if kp and kp[1][0] == keypress[0]]\<close>.\<close>

definition key_history :: "timeline_entry option list \<Rightarrow> real \<Rightarrow> timeline_entry option list" where
  "key_history timeline k =
     filter (\<lambda>kp. case kp of None \<Rightarrow> False | Some e \<Rightarrow> fst (snd e) = k) timeline"

text \<open>\<open>(time.time() - last_action[0]) * 1000\<close>, with the clock reading \<open>now\<close>.\<close>

definition press_duration :: "real \<Rightarrow> timeline_entry \<Rightarrow> real" where
  "press_duration now last_action = (now - fst last_action) * 1000"

text \<open>
  The body of the loop of \<open>produce\<close> from the keypress on, in two parts. \<open>classify\<close> is
  the \<open>if not keypress[1]\<close> block: it yields \<open>result\<close>, \<open>None\<close> standing for the empty
  list \<open>result\<close> starts as, or the \<open>IndexError\<close> of \<open>key_history[0]\<close> on an empty list.
  \<open>produce_body\<close> then records the keypress and puts \<open>result\<close> on the queue. \<open>now1\<close> and
  \<open>now2\<close> are the two readings of \<open>time.time()\<close>.
\<close>

definition classify :: "KeySequenceListener \<Rightarrow> keypress \<Rightarrow> real \<Rightarrow>
    error + (int \<times> KeySequence) option" where
  "classify ls keypress now =
     (if \<not> snd keypress then
        (case key_history (ksl_tl ls) (fst keypress) of
           [] \<Rightarrow> Inl IndexError
         | last_action # rest \<Rightarrow>
             (case last_action of
                None \<Rightarrow> Inr None
              | Some la \<Rightarrow>
                  if press_duration now la > 500 \<and> HOLD \<in> set (ksl_listen_for ls)
                  then Inr (Some (py_int (fst keypress), HOLD))
                  else Inr (Some (py_int (fst keypress), SINGLE))))
      else Inr None)"

definition produce_body :: "KeySequenceListener \<Rightarrow> (int \<times> KeySequence) option list \<Rightarrow>
    keypress \<Rightarrow> real \<Rightarrow> real \<Rightarrow>
    error + KeySequenceListener \<times> (int \<times> KeySequence) option list" where
  "produce_body ls q keypress now1 now2 =
     (case classify ls keypress now1 of
        Inl e \<Rightarrow> Inl e
      | Inr result \<Rightarrow>
          Inr (ls\<lparr>ksl_tl := appendleft (Some (now2, keypress)) (ksl_tl ls)\<rparr>, q @ [result]))"

text \<open>
  One turn of the loop of \<open>produce\<close> on the scripted source: the exception that ends
  the loop, if any, with the listener and the queue as the turn leaves them. A
  keypress of \<open>None\<close> fails at \<open>keypress[1]\<close>.
\<close>

definition produce_iteration :: "(string \<Rightarrow> real option) \<Rightarrow> KeySequenceListener \<Rightarrow>
    (int \<times> KeySequence) option list \<Rightarrow> real \<Rightarrow> real \<Rightarrow>
    error option \<times> KeySequenceListener \<times> (int \<times> KeySequence) option list" where
  "produce_iteration flt ls q now1 now2 =
     (case async_wait flt (ksl_ki ls) of
        (Inl e, ki') \<Rightarrow> (Some e, ls\<lparr>ksl_ki := ki'\<rparr>, q)
      | (Inr None, ki') \<Rightarrow> (Some TypeError, ls\<lparr>ksl_ki := ki'\<rparr>, q)
      | (Inr (Some keypress), ki') \<Rightarrow>
          (case produce_body (ls\<lparr>ksl_ki := ki'\<rparr>) q keypress now1 now2 of
             Inl e \<Rightarrow> (Some e, ls\<lparr>ksl_ki := ki'\<rparr>, q)
           | Inr (ls', q') \<Rightarrow> (None, ls', q')))"

text \<open>A turn of the loop that ends without an exception has consumed at least one
  line of the script, which is what bounds the loop below.\<close>

lemma key_update_script:
  "key_update ki idx st = Inr ki' \<Longrightarrow>
   ki_script ki' = ki_script ki \<and> ki_script_position ki' = ki_script_position ki"
  by (auto simp: key_update_def split: sum.splits)

lemma async_wait_advances:
  "async_wait flt ki = (Inr r, ki') \<Longrightarrow>
   ki_script ki' = ki_script ki \<and> ki_script_position ki < ki_script_position ki'"
proof (induction flt ki rule: async_wait.induct)
  case (1 flt ki)
  from "1.prems" show ?case
    apply (subst (asm) async_wait.simps)
    apply (auto simp: Let_def split: if_splits list.splits option.splits sum.splits
        dest!: key_update_script)
    using "1.IH" apply fastforce+
    done
qed

lemma produce_iteration_advances:
  "produce_iteration flt ls q now1 now2 = (None, ls', q') \<Longrightarrow>
   length (ki_script (ksl_ki ls')) - ki_script_position (ksl_ki ls') <
   length (ki_script (ksl_ki ls)) - ki_script_position (ksl_ki ls)"
proof -
  assume a: "produce_iteration flt ls q now1 now2 = (None, ls', q')"
  then obtain kp ki' where w: "async_wait flt (ksl_ki ls) = (Inr (Some kp), ki')"
    and k: "ksl_ki ls' = ki'"
    by (auto simp: produce_iteration_def produce_body_def
        split: prod.splits sum.splits option.splits)
  have "ki_script_position (ksl_ki ls) < length (ki_script (ksl_ki ls))"
    using w by (subst (asm) async_wait.simps) (auto split: if_splits)
  then show ?thesis
    using async_wait_advances [OF w] k by auto
qed

text \<open>
  \<open>produce\<close> on the scripted source: the \<open>while True\<close> loop, turn after turn, until a
  turn ends in an exception, which nothing in the loop catches. \<open>clock i\<close> is the pair
  of readings \<open>time.time()\<close> gives in turn \<open>i\<close>. The result is the exception that ended
  the loop with the listener and the queue as they are then. On a script the loop
  always ends: every turn consumes a line, and the turn after the last line raises.
\<close>

function produce :: "(string \<Rightarrow> real option) \<Rightarrow> (nat \<Rightarrow> real \<times> real) \<Rightarrow> nat \<Rightarrow>
    KeySequenceListener \<Rightarrow> (int \<times> KeySequence) option list \<Rightarrow>
    error \<times> KeySequenceListener \<times> (int \<times> KeySequence) option list" where
  "produce flt clock i ls q =
     (case produce_iteration flt ls q (fst (clock i)) (snd (clock i)) of
        (Some e, ls', q') \<Rightarrow> (e, ls', q')
      | (None, ls', q') \<Rightarrow> produce flt clock (Suc i) ls' q')"
  by pat_completeness auto
termination
  apply (relation "measure (\<lambda>(flt, clock, i, ls, q).
           length (ki_script (ksl_ki ls)) - ki_script_position (ksl_ki ls))")
   apply simp
  apply (auto dest: produce_iteration_advances [OF sym])
  done

declare produce.simps [simp del]

text \<open>The lookup as the specification words it: the most recent entry for the key
  whose pressed flag is true.\<close>

definition spec_most_recent_press :: "timeline_entry option list \<Rightarrow> real \<Rightarrow> timeline_entry option" where
  "spec_most_recent_press timeline k =
     (case filter (\<lambda>kp. case kp of None \<Rightarrow> False | Some e \<Rightarrow> fst (snd e) = k \<and> snd (snd e))
             timeline of
        [] \<Rightarrow> None
      | kp # rest \<Rightarrow> kp)"


section \<open>LEDCommand\<close>

datatype LEDOperation = OFF | ON | BLINK

text \<open>The constructor stores its arguments unchecked, so the colour fields hold
  whatever values it was given.\<close>

record LEDCommand =
  lc_key_idx :: int
  lc_op :: LEDOperation
  lc_r :: pyval
  lc_g :: pyval
  lc_b :: pyval
  lc_blink_count :: int

definition LEDCommand_init :: "int \<Rightarrow> LEDOperation \<Rightarrow> pyval \<Rightarrow> pyval \<Rightarrow> pyval \<Rightarrow> int \<Rightarrow> LEDCommand" where
  "LEDCommand_init key_idx op r g b blink_count =
     \<lparr>lc_key_idx = key_idx, lc_op = op, lc_r = r, lc_g = g, lc_b = b,
      lc_blink_count = blink_count\<rparr>"

text \<open>The condition the three setters share,
  \<open>not isinstance(int, val) or val < 0 or val > 255\<close>, evaluated left to right.\<close>

definition setter_condition :: "pyval \<Rightarrow> error + bool" where
  "setter_condition val =
     (case isinstance_int val of
        Inl e \<Rightarrow> Inl e
      | Inr inst \<Rightarrow>
          if \<not> inst then Inr True
          else (case py_lt val 0 of
                  Inl e \<Rightarrow> Inl e
                | Inr lt \<Rightarrow> if lt then Inr True else py_gt val 255))"

text \<open>The assignments the setters end with: \<open>self._r = val\<close> in all three.\<close>

definition r_assignment :: "LEDCommand \<Rightarrow> pyval \<Rightarrow> LEDCommand" where
  "r_assignment c val = c\<lparr>lc_r := val\<rparr>"

definition g_assignment :: "LEDCommand \<Rightarrow> pyval \<Rightarrow> LEDCommand" where
  "g_assignment c val = c\<lparr>lc_r := val\<rparr>"

definition b_assignment :: "LEDCommand \<Rightarrow> pyval \<Rightarrow> LEDCommand" where
  "b_assignment c val = c\<lparr>lc_r := val\<rparr>"

definition LEDCommand_r_setter :: "LEDCommand \<Rightarrow> pyval \<Rightarrow> error + LEDCommand" where
  "LEDCommand_r_setter c val =
     (case setter_condition val of
        Inl e \<Rightarrow> Inl e
      | Inr bad \<Rightarrow> if bad then Inl LEDInterfaceError else Inr (r_assignment c val))"

definition LEDCommand_g_setter :: "LEDCommand \<Rightarrow> pyval \<Rightarrow> error + LEDCommand" where
  "LEDCommand_g_setter c val =
     (case setter_condition val of
        Inl e \<Rightarrow> Inl e
      | Inr bad \<Rightarrow> if bad then Inl LEDInterfaceError else Inr (g_assignment c val))"

definition LEDCommand_b_setter :: "LEDCommand \<Rightarrow> pyval \<Rightarrow> error + LEDCommand" where
  "LEDCommand_b_setter c val =
     (case setter_condition val of
        Inl e \<Rightarrow> Inl e
      | Inr bad \<Rightarrow> if bad then Inl LEDInterfaceError else Inr (b_assignment c val))"

text \<open>\<open>isinstance(val, type)\<close> on the values of the model.\<close>

fun is_type :: "pyval \<Rightarrow> bool" where
  "is_type (PType t) = True"
| "is_type PNone = False"
| "is_type (PBool b) = False"
| "is_type (PInt i) = False"
| "is_type (PFloat x) = False"
| "is_type (PStr s) = False"



section \<open>KeyState: the pressed flag and the colour code\<close>

text \<open>What the setter of \<open>pressed\<close> does on every value: a boolean is always stored and
  read back, and the values refused are those that are no number or a number other
  than 0 and 1.\<close>

lemma pressed_setter_bool:
  "pressed_setter ks (PBool b) = Inr (ks\<lparr>ks_pressed := PBool b\<rparr>) \<and>
   pressed (ks\<lparr>ks_pressed := PBool b\<rparr>) = PBool b"
  by (cases b) (simp_all add: pressed_setter_def py_in_def py_eq_def pressed_def)

lemma pressed_setter_fails_iff:
  "pressed_setter ks var = Inl KeyStateError \<longleftrightarrow> num_of var \<noteq> Some 0 \<and> num_of var \<noteq> Some 1"
  by (cases var) (auto simp: pressed_setter_def py_in_def py_eq_def)

text \<open>
  C6. Assigning a value to \<open>pressed\<close> is said to fail exactly when the value is not a
  boolean. The setter tests \<open>var not in (True, False)\<close>, and membership in a tuple is
  by equality: the integer \<open>1\<close> equals \<open>True\<close>, so it passes the test although it is not
  a boolean, is stored, and is what the next read of \<open>pressed\<close> returns.
\<close>

theorem pressed_setter_accepts_int:
  "\<not> is_bool (PInt 1) \<and>
   pressed_setter KeyState_init (PInt 1) = Inr (KeyState_init\<lparr>ks_pressed := PInt 1\<rparr>) \<and>
   pressed (KeyState_init\<lparr>ks_pressed := PInt 1\<rparr>) = PInt 1"
  by (simp add: pressed_setter_def py_in_def py_eq_def pressed_def)

lemma hex_of_nat_small: "n < 16 \<Longrightarrow> hex_of_nat n = [hexdigit n]"
  by (simp add: hex_of_nat.simps)

lemma hex_of_nat_two:
  "16 \<le> n \<Longrightarrow> n < 256 \<Longrightarrow> hex_of_nat n = [hexdigit (n div 16), hexdigit (n mod 16)]"
  by (subst hex_of_nat.simps) (simp add: hex_of_nat_small)

lemma hexdigit_0: "hexdigit 0 = CHR ''0''"
  by (simp add: hexdigit_def)

lemma format_02x_byte: "0 \<le> v \<Longrightarrow> v \<le> 255 \<Longrightarrow> format_02x v = spec_hex2 v"
proof -
  assume a: "0 \<le> v" "v \<le> 255"
  show ?thesis
  proof (cases "nat v < 16")
    case True
    then show ?thesis using a
      by (simp add: format_02x_def spec_hex2_def hex_of_nat_small hexdigit_0)
  next
    case False
    then have "16 \<le> nat v" "nat v < 256" using a by auto
    then show ?thesis using a
      by (simp add: format_02x_def spec_hex2_def hex_of_nat_two)
  qed
qed

lemma hexdigit_lower: "d < 16 \<Longrightarrow> hexdigit d \<in> set ''0123456789abcdef''"
  unfolding hexdigit_def by (rule nth_mem) simp

lemma spec_hex2_chars:
  "0 \<le> v \<Longrightarrow> v \<le> 255 \<Longrightarrow> set (spec_hex2 v) \<subseteq> set ''0123456789abcdef''"
proof -
  assume a: "0 \<le> v" "v \<le> 255"
  then have "nat v div 16 < 16" "nat v mod 16 < 16" by auto
  then show ?thesis
    unfolding spec_hex2_def using hexdigit_lower
    by (metis (no_types, lifting) empty_set insert_subset list.simps(15) subset_refl)
qed

text \<open>
  C7. For a \<open>KeyState\<close> whose \<open>r\<close>, \<open>g\<close>, \<open>b\<close> are integers in [0,255], \<open>colourcode\<close> is the
  concatenation of the three values, each as two lowercase hexadecimal digits padded
  with a zero: six characters, all of them lowercase hexadecimal digits. \<open>is_lit\<close>
  returns false exactly when \<open>r = g = b = 0\<close>.
\<close>

theorem colourcode_is_hex_concatenation:
  assumes "0 \<le> ks_r ks" "ks_r ks \<le> 255" "0 \<le> ks_g ks" "ks_g ks \<le> 255"
    "0 \<le> ks_b ks" "ks_b ks \<le> 255"
  shows "colourcode ks = spec_color_code (ks_r ks) (ks_g ks) (ks_b ks) \<and>
    length (colourcode ks) = 6 \<and>
    set (colourcode ks) \<subseteq> set ''0123456789abcdef'' \<and>
    (is_lit ks = False \<longleftrightarrow> ks_r ks = 0 \<and> ks_g ks = 0 \<and> ks_b ks = 0)"
proof -
  have c: "colourcode ks = spec_color_code (ks_r ks) (ks_g ks) (ks_b ks)"
    using assms by (simp add: colourcode_def spec_color_code_def format_02x_byte)
  have l: "length (colourcode ks) = 6"
    unfolding c by (simp add: spec_color_code_def spec_hex2_def)
  have s: "set (colourcode ks) \<subseteq> set ''0123456789abcdef''"
    unfolding c spec_color_code_def set_append
    using assms spec_hex2_chars by blast
  have i: "is_lit ks = False \<longleftrightarrow> ks_r ks = 0 \<and> ks_g ks = 0 \<and> ks_b ks = 0"
    by (auto simp: is_lit_def)
  from c l s i show ?thesis by blast
qed

theorem colourcode_is_hex_concatenation_witness:
  "colourcode \<lparr>ks_pressed = PBool False, ks_r = 255, ks_g = 0, ks_b = 10\<rparr> = ''ff000a'' \<and>
   is_lit \<lparr>ks_pressed = PBool False, ks_r = 255, ks_g = 0, ks_b = 10\<rparr> \<and>
   \<not> is_lit \<lparr>ks_pressed = PBool False, ks_r = 0, ks_g = 0, ks_b = 0\<rparr>"
  using colourcode_is_hex_concatenation
      [of "\<lparr>ks_pressed = PBool False, ks_r = 255, ks_g = 0, ks_b = 10\<rparr>"]
    colourcode_is_hex_concatenation
      [of "\<lparr>ks_pressed = PBool False, ks_r = 0, ks_g = 0, ks_b = 0\<rparr>"]
  by (simp add: spec_color_code_def spec_hex2_def hexdigit_def)


section \<open>The timeline buffer\<close>







section \<open>The classification of a release\<close>

lemma key_history_split:
  "key_history pre k = [] \<Longrightarrow>
   key_history (pre @ Some (ts, (k, p)) # post) k = Some (ts, (k, p)) # key_history post k"
  by (simp add: key_history_def)

lemma spec_most_recent_press_split:
  "key_history pre k = [] \<Longrightarrow>
   spec_most_recent_press (pre @ Some (ts, (k, True)) # post) k = Some (ts, (k, True))"
proof -
  assume h: "key_history pre k = []"
  have "filter (\<lambda>kp. case kp of None \<Rightarrow> False | Some e \<Rightarrow> fst (snd e) = k \<and> snd (snd e)) pre = []"
    using h unfolding key_history_def filter_empty_conv
    by (auto split: option.splits)
  then show ?thesis
    by (simp add: spec_most_recent_press_def)
qed

text \<open>
  C1. A \<open>(key_index, SINGLE)\<close> event is said to be emitted only if \<open>SINGLE\<close> is in the
  list the listener was told to listen for. The \<open>else\<close> branch of \<open>produce\<close> emits
  \<open>SINGLE\<close> without looking at \<open>_listen_for\<close>, which only the \<open>HOLD\<close> branch consults: a
  listener for \<open>[HOLD]\<close> run on the script \<open>['down 1', 'sleep 0.2', 'up 1']\<close>, the key
  going down at time 0 and up at time 0.2, puts the empty marker for the press and
  then \<open>(1, SINGLE)\<close> on the queue, before the exhausted script ends the loop.
\<close>

theorem single_emitted_outside_listen_for:
  "SINGLE \<notin> set [HOLD] \<and>
   produce (\<lambda>s. if s = ''1'' then Some 1 else if s = ''0.2'' then Some (1/5) else None)
     (\<lambda>i. if i = 0 then (0, 0) else (1/5, 1/5)) 0
     (KeySequenceListener_init
        (KeyInterface_setup KeyInterface_init 3 [''down 1'', ''sleep 0.2'', ''up 1'']) [HOLD])
     [] =
   (IndexError,
    \<lparr>ksl_listen_for = [HOLD],
     ksl_ki =
       \<lparr>ki_state = [(0, KeyState_init), (1, KeyState_init), (2, KeyState_init)],
        ki_last_press = Some (1, False),
        ki_script = [''down 1'', ''sleep 0.2'', ''up 1''],
        ki_script_position = 3,
        ki_slept = [1/5, 99999999]\<rparr>,
     ksl_tl = Some (1/5, (1, False)) # Some (0, (1, True)) # replicate 48 None\<rparr>,
    [None, Some (1, SINGLE)])"
  by (simp add: produce.simps produce_iteration_def async_wait.simps
      KeySequenceListener_init_def KeyInterface_setup_def KeyInterface_init_def str_split_def
      is_space_def key_update_def pressed_setter_def py_in_def py_eq_def KeyState_init_def
      upt_rec produce_body_def classify_def key_history_def tl_init_def press_duration_def
      py_int_def appendleft_def Let_def butlast_conv_take)

text \<open>
  C2. A release of a key with no entry on the timeline is said to publish the empty
  marker and raise nothing. \<open>produce\<close> takes \<open>key_history[0]\<close> before it tests
  \<open>last_action\<close>, and on the empty list that raises \<open>IndexError\<close>: run on the script
  \<open>['up 1']\<close>, the loop ends in that exception in its first turn, with nothing on the
  queue and nothing recorded on the timeline.
\<close>

theorem release_without_history_raises:
  "key_history tl_init 1 = [] \<and>
   produce (\<lambda>s. if s = ''1'' then Some 1 else None) (\<lambda>i. (0, 0)) 0
     (KeySequenceListener_init (KeyInterface_setup KeyInterface_init 3 [''up 1'']) [SINGLE])
     [] =
   (IndexError,
    \<lparr>ksl_listen_for = [SINGLE],
     ksl_ki =
       \<lparr>ki_state = [(0, KeyState_init), (1, KeyState_init), (2, KeyState_init)],
        ki_last_press = Some (1, False),
        ki_script = [''up 1''],
        ki_script_position = 1,
        ki_slept = []\<rparr>,
     ksl_tl = tl_init\<rparr>,
    [])"
  by (simp add: produce.simps produce_iteration_def async_wait.simps
      KeySequenceListener_init_def KeyInterface_setup_def KeyInterface_init_def str_split_def
      is_space_def key_update_def pressed_setter_def py_in_def py_eq_def KeyState_init_def
      upt_rec produce_body_def classify_def key_history_def tl_init_def)

text \<open>
  C3, as stated: the duration is computed from the most recent entry for the key
  whose pressed flag is true. It is not: on the timeline left by key 1 going down at
  time 0 and up at time 1, a second release of key 1 at time 1.1 is measured from the
  release at time 1 (100 ms, \<open>SINGLE\<close>), not from the press at time 0 (1100 ms, which
  is over 500 and would be a \<open>HOLD\<close>).
\<close>

theorem duration_not_from_press_counterexample:
  "push_all [(0, (1, True)), (1, (1, False))] tl_init =
     Some (1, (1, False)) # Some (0, (1, True)) # replicate 48 None \<and>
   spec_most_recent_press (Some (1, (1, False)) # Some (0, (1, True)) # replicate 48 None) 1 =
     Some (0, (1, True)) \<and>
   press_duration (11/10) (0, (1, True)) = 1100 \<and>
   classify
     \<lparr>ksl_listen_for = [SINGLE, HOLD], ksl_ki = KeyInterface_init,
      ksl_tl = Some (1, (1, False)) # Some (0, (1, True)) # replicate 48 None\<rparr>
     (1, False) (11/10) = Inr (Some (1, SINGLE))"
  by (simp add: spec_most_recent_press_def classify_def key_history_def press_duration_def
      py_int_def push_all_def tl_init_def appendleft_def Let_def butlast_conv_take)

text \<open>
  C3, amended. When key \<open>k\<close> is released, the duration is computed from the timestamp
  of the most recent timeline entry for \<open>k\<close>, whatever its pressed flag \<open>p\<close>: the entry
  \<open>(ts, (k, p))\<close> with no entry for \<open>k\<close> before it. The search runs on the timeline as
  it is before the release is recorded; the release is recorded afterwards. When
  that entry is a press, it is the most recent press of \<open>k\<close>.
\<close>

theorem duration_from_most_recent_entry:
  assumes "ksl_tl ls = pre @ Some (ts, (k, p)) # post" and "key_history pre k = []"
  shows "produce_body ls q (k, False) now1 now2 =
      Inr (ls\<lparr>ksl_tl := appendleft (Some (now2, (k, False))) (ksl_tl ls)\<rparr>,
           q @ [Some (py_int k,
                  if press_duration now1 (ts, (k, p)) > 500 \<and> HOLD \<in> set (ksl_listen_for ls)
                  then HOLD else SINGLE)]) \<and>
    (p \<longrightarrow> spec_most_recent_press (ksl_tl ls) k = Some (ts, (k, p)))"
  using assms
  by (simp add: produce_body_def classify_def key_history_split spec_most_recent_press_split)

theorem duration_from_most_recent_entry_witness:
  "produce_body
     \<lparr>ksl_listen_for = [SINGLE, HOLD], ksl_ki = KeyInterface_init,
      ksl_tl = [Some (3, (2, True)), Some (1, (1, False)), Some (0, (1, True))]\<rparr>
     [] (1, False) (11/10) (6/5) =
   Inr (\<lparr>ksl_listen_for = [SINGLE, HOLD], ksl_ki = KeyInterface_init,
         ksl_tl = [Some (6/5, (1, False)), Some (3, (2, True)), Some (1, (1, False)),
                   Some (0, (1, True))]\<rparr>,
        [Some (1, SINGLE)])"
proof -
  have h: "key_history [Some (3, (2, True))] 1 = []"
    by (simp add: key_history_def)
  show ?thesis
    using duration_from_most_recent_entry
      [of "\<lparr>ksl_listen_for = [SINGLE, HOLD], ksl_ki = KeyInterface_init,
            ksl_tl = [Some (3, (2, True)), Some (1, (1, False)), Some (0, (1, True))]\<rparr>"
          "[Some (3, (2, True))]" 1 1 False "[Some (0, (1, True))]" "[]" "11/10" "6/5", OF _ h]
    by (simp add: press_duration_def py_int_def appendleft_def)
qed

text \<open>
  C4. For a release of key \<open>k\<close> that is classified (the timeline has an entry for
  \<open>k\<close>, the most recent being \<open>la\<close>) by a listener with \<open>HOLD\<close> in its list, the item put
  on the queue is \<open>(k, HOLD)\<close> if the computed duration is over 500 and \<open>(k, SINGLE)\<close>
  otherwise; a duration of exactly 500 gives \<open>SINGLE\<close>. Timestamps are reals here, so
  the duration is the exact product, without the rounding of floats.
\<close>

theorem hold_iff_duration_over_500:
  assumes "key_history (ksl_tl ls) k = Some la # rest" and "HOLD \<in> set (ksl_listen_for ls)"
  shows "produce_body ls q (k, False) now1 now2 =
      Inr (ls\<lparr>ksl_tl := appendleft (Some (now2, (k, False))) (ksl_tl ls)\<rparr>,
           q @ [Some (py_int k, if press_duration now1 la > 500 then HOLD else SINGLE)]) \<and>
    (classify ls (k, False) now1 = Inr (Some (py_int k, HOLD)) \<longleftrightarrow> press_duration now1 la > 500) \<and>
    (press_duration now1 la = 500 \<longrightarrow> classify ls (k, False) now1 = Inr (Some (py_int k, SINGLE)))"
  using assms by (simp add: produce_body_def classify_def)

theorem hold_iff_duration_over_500_witness:
  "classify
     \<lparr>ksl_listen_for = [SINGLE, HOLD], ksl_ki = KeyInterface_init,
      ksl_tl = [Some (0, (0, True))]\<rparr> (0, False) (3/5) = Inr (Some (0, HOLD)) \<and>
   press_duration (1/2) (0, (0, True)) = 500 \<and>
   classify
     \<lparr>ksl_listen_for = [SINGLE, HOLD], ksl_ki = KeyInterface_init,
      ksl_tl = [Some (0, (0, True))]\<rparr> (0, False) (1/2) = Inr (Some (0, SINGLE))"
proof -
  have h: "key_history (ksl_tl \<lparr>ksl_listen_for = [SINGLE, HOLD], ksl_ki = KeyInterface_init,
      ksl_tl = [Some (0, (0, True))]\<rparr>) 0 = Some (0, (0, True)) # []"
    by (simp add: key_history_def)
  have m: "HOLD \<in> set (ksl_listen_for \<lparr>ksl_listen_for = [SINGLE, HOLD],
      ksl_ki = KeyInterface_init, ksl_tl = [Some (0, (0, True))]\<rparr>)"
    by simp
  show ?thesis
    using hold_iff_duration_over_500 [OF h m, of "[]" "3/5" 0]
      hold_iff_duration_over_500 [OF h m, of "[]" "1/2" 0]
    by (simp add: press_duration_def py_int_def)
qed


section \<open>The scripted event source\<close>

lemma async_wait_malformed:
  assumes "ki_script_position ki < length (ki_script ki)"
    and "length (str_split (ki_script ki ! ki_script_position ki)) \<noteq> 2 \<or>
         flt (str_split (ki_script ki ! ki_script_position ki) ! 1) = None"
  shows "async_wait flt ki =
      (Inl ValueError, ki\<lparr>ki_script_position := ki_script_position ki + 1\<rparr>)"
proof (cases "str_split (ki_script ki ! ki_script_position ki)")
  case Nil
  then show ?thesis
    using assms(1) by (subst async_wait.simps) (simp add: Let_def)
next
  case (Cons op r1)
  note c1 = this
  show ?thesis
  proof (cases r1)
    case Nil
    then show ?thesis
      using assms(1) c1 by (subst async_wait.simps) (simp add: Let_def)
  next
    case (Cons arg r2)
    note c2 = this
    show ?thesis
    proof (cases r2)
      case Nil
      then have "flt arg = None"
        using assms(2) c1 c2 by simp
      then show ?thesis
        using assms(1) c1 c2 Nil by (subst async_wait.simps) (simp add: Let_def)
    next
      case (Cons x r3)
      then show ?thesis
        using assms(1) c1 c2 by (subst async_wait.simps) (simp add: Let_def)
    qed
  qed
qed

lemma async_wait_exhausted:
  assumes "ki_script_position ki \<ge> length (ki_script ki)"
  shows "async_wait flt ki = (Inl IndexError, ki\<lparr>ki_slept := ki_slept ki @ [99999999]\<rparr>)"
  using assms by (subst async_wait.simps) simp

text \<open>
  C8. When the line under the cursor is malformed (it does not split into exactly
  two tokens, or \<open>float\<close> rejects its second token), \<open>async_wait\<close> raises \<open>ValueError\<close>
  on reaching it. Nothing of the line is applied: no key state changes, no keypress
  is recorded as the last one, nothing is slept; the cursor alone has moved past the
  line. Nothing in \<open>produce\<close> catches the exception: it ends the loop, with nothing put
  on the queue for the line.
\<close>

theorem malformed_line_raises_ValueError:
  assumes "ki_script_position (ksl_ki ls) < length (ki_script (ksl_ki ls))"
    and "length (str_split (ki_script (ksl_ki ls) ! ki_script_position (ksl_ki ls))) \<noteq> 2 \<or>
         flt (str_split (ki_script (ksl_ki ls) ! ki_script_position (ksl_ki ls)) ! 1) = None"
  shows "async_wait flt (ksl_ki ls) =
      (Inl ValueError,
       (ksl_ki ls)\<lparr>ki_script_position := ki_script_position (ksl_ki ls) + 1\<rparr>) \<and>
    produce_iteration flt ls q now1 now2 =
      (Some ValueError,
       ls\<lparr>ksl_ki := (ksl_ki ls)\<lparr>ki_script_position := ki_script_position (ksl_ki ls) + 1\<rparr>\<rparr>,
       q) \<and>
    produce flt clock i ls q =
      (ValueError,
       ls\<lparr>ksl_ki := (ksl_ki ls)\<lparr>ki_script_position := ki_script_position (ksl_ki ls) + 1\<rparr>\<rparr>,
       q)"
proof -
  have w: "async_wait flt (ksl_ki ls) =
      (Inl ValueError,
       (ksl_ki ls)\<lparr>ki_script_position := ki_script_position (ksl_ki ls) + 1\<rparr>)"
    using async_wait_malformed [of "ksl_ki ls" flt] assms by simp
  have t: "produce_iteration flt ls q t1 t2 =
      (Some ValueError,
       ls\<lparr>ksl_ki := (ksl_ki ls)\<lparr>ki_script_position := ki_script_position (ksl_ki ls) + 1\<rparr>\<rparr>,
       q)" for t1 t2
    by (simp add: produce_iteration_def w)
  have p: "produce flt clock i ls q =
      (ValueError,
       ls\<lparr>ksl_ki := (ksl_ki ls)\<lparr>ki_script_position := ki_script_position (ksl_ki ls) + 1\<rparr>\<rparr>,
       q)"
    by (subst produce.simps) (simp add: t)
  from w t p show ?thesis by blast
qed

theorem malformed_line_raises_ValueError_witness:
  "str_split ''down 1 2'' = [''down'', ''1'', ''2''] \<and>
   async_wait (\<lambda>s. if s = ''1'' then Some 1 else None)
     (KeyInterface_setup KeyInterface_init 3 [''down 1 2'']) =
   (Inl ValueError,
    (KeyInterface_setup KeyInterface_init 3 [''down 1 2''])\<lparr>ki_script_position := 1\<rparr>) \<and>
   str_split ''up x'' = [''up'', ''x''] \<and>
   async_wait (\<lambda>s. if s = ''1'' then Some 1 else None)
     (KeyInterface_setup KeyInterface_init 3 [''up x'']) =
   (Inl ValueError,
    (KeyInterface_setup KeyInterface_init 3 [''up x''])\<lparr>ki_script_position := 1\<rparr>)"
proof -
  have s1: "str_split ''down 1 2'' = [''down'', ''1'', ''2'']"
    by (simp add: str_split_def is_space_def)
  have s2: "str_split ''up x'' = [''up'', ''x'']"
    by (simp add: str_split_def is_space_def)
  show ?thesis
    using s1 s2
      malformed_line_raises_ValueError
        [of "KeySequenceListener_init (KeyInterface_setup KeyInterface_init 3 [''down 1 2'']) [SINGLE]"
            "\<lambda>s. if s = ''1'' then Some 1 else None" "[]" 0 0 "\<lambda>i. (0, 0)" 0]
      malformed_line_raises_ValueError
        [of "KeySequenceListener_init (KeyInterface_setup KeyInterface_init 3 [''up x'']) [SINGLE]"
            "\<lambda>s. if s = ''1'' then Some 1 else None" "[]" 0 0 "\<lambda>i. (0, 0)" 0]
    by (simp add: KeySequenceListener_init_def KeyInterface_setup_def KeyInterface_init_def)
qed

text \<open>
  C9, as stated: once the cursor is past the last command, \<open>async_wait\<close> suspends
  indefinitely. It does not: it awaits \<open>asyncio.sleep(99999999)\<close>, a long but finite
  sleep, and then goes on to \<open>self._script[self._script_position]\<close>, which raises
  \<open>IndexError\<close>. On an interface with an empty script the call ends, in that
  exception, after the one sleep.
\<close>

theorem exhausted_poll_ends_counterexample:
  "async_wait (\<lambda>s. None)
     \<lparr>ki_state = [], ki_last_press = None, ki_script = [], ki_script_position = 0,
      ki_slept = []\<rparr> =
   (Inl IndexError,
    \<lparr>ki_state = [], ki_last_press = None, ki_script = [], ki_script_position = 0,
     ki_slept = [99999999]\<rparr>)"
  by (simp add: async_wait.simps)

text \<open>
  C9, amended. Once the cursor is past the last command, every call of \<open>async_wait\<close>
  sleeps for 99999999 seconds and returns no transition: it ends in an \<open>IndexError\<close>,
  leaving the cursor where it was, so the same holds for any later call. The loop
  of \<open>produce\<close> ends with that exception, and the queue is as it was: no further
  item is published.
\<close>

theorem exhausted_script_sleeps_and_publishes_nothing:
  assumes "ki_script_position (ksl_ki ls) \<ge> length (ki_script (ksl_ki ls))"
  shows "async_wait flt (ksl_ki ls) =
      (Inl IndexError, (ksl_ki ls)\<lparr>ki_slept := ki_slept (ksl_ki ls) @ [99999999]\<rparr>) \<and>
    ki_script_position (snd (async_wait flt (ksl_ki ls))) \<ge>
      length (ki_script (snd (async_wait flt (ksl_ki ls)))) \<and>
    produce_iteration flt ls q now1 now2 =
      (Some IndexError,
       ls\<lparr>ksl_ki := (ksl_ki ls)\<lparr>ki_slept := ki_slept (ksl_ki ls) @ [99999999]\<rparr>\<rparr>, q) \<and>
    produce flt clock i ls q =
      (IndexError,
       ls\<lparr>ksl_ki := (ksl_ki ls)\<lparr>ki_slept := ki_slept (ksl_ki ls) @ [99999999]\<rparr>\<rparr>, q)"
proof -
  have w: "async_wait flt (ksl_ki ls) =
      (Inl IndexError, (ksl_ki ls)\<lparr>ki_slept := ki_slept (ksl_ki ls) @ [99999999]\<rparr>)"
    using async_wait_exhausted [of "ksl_ki ls" flt] assms by simp
  have c: "ki_script_position (snd (async_wait flt (ksl_ki ls))) \<ge>
      length (ki_script (snd (async_wait flt (ksl_ki ls))))"
    using assms by (simp add: w)
  have t: "produce_iteration flt ls q t1 t2 =
      (Some IndexError,
       ls\<lparr>ksl_ki := (ksl_ki ls)\<lparr>ki_slept := ki_slept (ksl_ki ls) @ [99999999]\<rparr>\<rparr>, q)"
    for t1 t2
    by (simp add: produce_iteration_def w)
  have p: "produce flt clock i ls q =
      (IndexError,
       ls\<lparr>ksl_ki := (ksl_ki ls)\<lparr>ki_slept := ki_slept (ksl_ki ls) @ [99999999]\<rparr>\<rparr>, q)"
    by (subst produce.simps) (simp add: t)
  from w c t p show ?thesis by blast
qed

theorem exhausted_script_sleeps_and_publishes_nothing_witness:
  "produce_iteration (\<lambda>s. if s = ''1'' then Some 1 else None)
     (KeySequenceListener_init
        ((KeyInterface_setup KeyInterface_init 3 [''down 1''])\<lparr>ki_script_position := 1\<rparr>)
        [SINGLE])
     [None] 0 0 =
   (Some IndexError,
    KeySequenceListener_init
      ((KeyInterface_setup KeyInterface_init 3 [''down 1''])
         \<lparr>ki_script_position := 1, ki_slept := [99999999]\<rparr>) [SINGLE],
    [None])"
  using exhausted_script_sleeps_and_publishes_nothing
    [of "KeySequenceListener_init
           ((KeyInterface_setup KeyInterface_init 3 [''down 1''])\<lparr>ki_script_position := 1\<rparr>)
           [SINGLE]"
        "\<lambda>s. if s = ''1'' then Some 1 else None" "[None]" 0 0 "\<lambda>i. (0, 0)" 1]
  by (simp add: KeySequenceListener_init_def KeyInterface_setup_def KeyInterface_init_def)


section \<open>LEDCommand: the colour setters\<close>

text \<open>
  C10. The setters are said to raise \<open>LEDInterfaceError\<close> for a value that is a type.
  The class \<open>object\<close> is a type, and a value the setters' own message (``must be an int
  0 < r < 255'') rules out, yet assigning it raises \<open>TypeError\<close>: the arguments of
  \<open>isinstance\<close> are the wrong way round, \<open>isinstance(int, object)\<close> is true, and the
  test goes on to \<open>object < 0\<close>, which is not defined. The three setters share the
  test and fail alike.
\<close>

theorem led_setter_object_raises_TypeError:
  "is_type (PType T_object) \<and>
   LEDCommand_r_setter (LEDCommand_init 0 BLINK (PInt 0) (PInt 0) (PInt 0) 1) (PType T_object) =
     Inl TypeError \<and>
   LEDCommand_g_setter (LEDCommand_init 0 BLINK (PInt 0) (PInt 0) (PInt 0) 1) (PType T_object) =
     Inl TypeError \<and>
   LEDCommand_b_setter (LEDCommand_init 0 BLINK (PInt 0) (PInt 0) (PInt 0) 1) (PType T_object) =
     Inl TypeError"
  by (simp add: LEDCommand_r_setter_def LEDCommand_g_setter_def LEDCommand_b_setter_def
      setter_condition_def py_lt_def)

end
